theory Spec2Isabelle
  imports Main "HOL-Library.Word"
begin

section \<open>Values, exceptions and the Modbus instrument\<close>

text \<open>
  The gateway (\<^verbatim>\<open>main.py\<close>) passes Python values between the HTTP side and the
  \<^verbatim>\<open>minimalmodbus\<close> instrument without computing on them. A Python \<^verbatim>\<open>float\<close> is
  kept as its IEEE-754 binary64 bit pattern; a \<^verbatim>\<open>dict\<close> literal is an association list
  in the order the literal is written.
\<close>

type_synonym pyfloat = "64 word"

datatype pyval =
    PyNone
  | PyInt int
  | PyFloat pyfloat
  | PyStr string
  | PyDict "(string \<times> pyval) list"

text \<open>
  The exceptions that can travel through a handler. \<open>ModbusException cls msg\<close> is an
  instance of \<^verbatim>\<open>minimalmodbus.ModbusException\<close> or of one of its subclasses: \<open>cls\<close> is the
  class name and \<open>msg\<close> is \<^verbatim>\<open>str(e)\<close>. \<open>HTTPException status_code detail\<close> is FastAPI's.
  \<open>OtherException\<close> is any exception that \<^verbatim>\<open>except minimalmodbus.ModbusException\<close> does
  not match.
\<close>

datatype exn =
    ModbusException string string
  | HTTPException int string
  | OtherException string

text \<open>
  One method call on the module-level \<^verbatim>\<open>instrument\<close>. When the library accepts the
  arguments it is one Modbus exchange; when it refuses them it raises before any
  exchange. The calls are
  \<^verbatim>\<open>instrument.read_register(address)\<close>,
  \<^verbatim>\<open>instrument.read_long(address, number_of_registers=n)\<close>,
  \<^verbatim>\<open>instrument.read_string(address, length)\<close>, \<^verbatim>\<open>instrument.read_float(address)\<close>,
  \<^verbatim>\<open>instrument.write_register(address, value)\<close> and
  \<^verbatim>\<open>instrument.write_float(address, value)\<close>.
\<close>

datatype call =
    ReadRegister int
  | ReadLong int int
  | ReadString int int
  | ReadFloat int
  | WriteRegister int int
  | WriteFloat int pyfloat

text \<open>
  The library \<^verbatim>\<open>minimalmodbus\<close> and the device behind it are not part of the repository:
  the instrument is a parameter. It answers a call, given the calls made on it so far,
  with a value or with a raised exception. The list of calls made so far is the state
  that the helpers and handlers thread through; it is what the device observes.
\<close>

type_synonym instrument = "call list \<Rightarrow> call \<Rightarrow> exn + pyval"

type_synonym 'a io = "call list \<Rightarrow> (exn + 'a) \<times> call list"

definition return_io :: "'a \<Rightarrow> 'a io" where
  "return_io v h = (Inr v, h)"

text \<open>Sequencing of two statements: an exception raised by the first skips the second.\<close>

definition bind_io :: "'a io \<Rightarrow> ('a \<Rightarrow> 'b io) \<Rightarrow> 'b io" where
  "bind_io m f h = (case m h of (Inl e, h') \<Rightarrow> (Inl e, h') | (Inr v, h') \<Rightarrow> f v h')"

definition call_instrument :: "instrument \<Rightarrow> call \<Rightarrow> pyval io" where
  "call_instrument instrument c h = (instrument h c, h @ [c])"

section \<open>The request models\<close>

record Configuration =
  external_charging_current_limitation :: "pyfloat option"

record Functions =
  master_heartbeat :: "int option"
  solar_charge_mode :: "int option"
  req_phase_usage :: "int option"
  charging_release :: "int option"
  lockmode :: "int option"

section \<open>The helper functions\<close>

text \<open>
  \<^verbatim>\<open>def read_register(address, number_of_registers=1)\<close>: the optional argument is
  \<open>None\<close> when the caller omits it.
\<close>

definition read_register :: "instrument \<Rightarrow> int \<Rightarrow> int option \<Rightarrow> pyval io" where
  "read_register instrument address number_of_registers_arg h =
     (let number_of_registers = (case number_of_registers_arg of None \<Rightarrow> 1 | Some n \<Rightarrow> n) in
      if number_of_registers = 1 then
        (case call_instrument instrument (ReadRegister address) h of
           (Inr v, h') \<Rightarrow> (Inr v, h')
         | (Inl (ModbusException cls e), h') \<Rightarrow> (Inl (HTTPException 500 e), h')
         | (Inl x, h') \<Rightarrow> (Inl x, h'))
      else
        (case call_instrument instrument (ReadLong address number_of_registers) h of
           (Inr v, h') \<Rightarrow> (Inr v, h')
         | (Inl (ModbusException cls e), h') \<Rightarrow> (Inl (HTTPException 500 e), h')
         | (Inl x, h') \<Rightarrow> (Inl x, h')))"

definition read_string :: "instrument \<Rightarrow> int \<Rightarrow> int \<Rightarrow> pyval io" where
  "read_string instrument address length_arg h =
     (case call_instrument instrument (ReadString address length_arg) h of
        (Inr v, h') \<Rightarrow> (Inr v, h')
      | (Inl (ModbusException cls e), h') \<Rightarrow> (Inl (HTTPException 500 e), h')
      | (Inl x, h') \<Rightarrow> (Inl x, h'))"

definition read_float :: "instrument \<Rightarrow> int \<Rightarrow> pyval io" where
  "read_float instrument address h =
     (case call_instrument instrument (ReadFloat address) h of
        (Inr v, h') \<Rightarrow> (Inr v, h')
      | (Inl (ModbusException cls e), h') \<Rightarrow> (Inl (HTTPException 500 e), h')
      | (Inl x, h') \<Rightarrow> (Inl x, h'))"

text \<open>The two write helpers have no \<^verbatim>\<open>return\<close>: what the instrument returns is dropped.\<close>

definition write_register :: "instrument \<Rightarrow> int \<Rightarrow> int \<Rightarrow> unit io" where
  "write_register instrument address val h =
     (case call_instrument instrument (WriteRegister address val) h of
        (Inr v, h') \<Rightarrow> (Inr (), h')
      | (Inl (ModbusException cls e), h') \<Rightarrow> (Inl (HTTPException 500 e), h')
      | (Inl x, h') \<Rightarrow> (Inl x, h'))"

definition write_float :: "instrument \<Rightarrow> int \<Rightarrow> pyfloat \<Rightarrow> unit io" where
  "write_float instrument address val h =
     (case call_instrument instrument (WriteFloat address val) h of
        (Inr v, h') \<Rightarrow> (Inr (), h')
      | (Inl (ModbusException cls e), h') \<Rightarrow> (Inl (HTTPException 500 e), h')
      | (Inl x, h') \<Rightarrow> (Inl x, h'))"

section \<open>The handlers\<close>

text \<open>
  A handler returns a \<^verbatim>\<open>dict\<close> literal whose values are helper calls. Python evaluates
  them top to bottom, and an exception raised by one of them leaves the handler at once.
\<close>

definition get_version_info :: "instrument \<Rightarrow> pyval io" where
  "get_version_info instrument =
     bind_io (read_register instrument 0x0000 None) (\<lambda>layout_version.
     bind_io (read_string instrument 0x0001 8) (\<lambda>firmware_version.
     bind_io (read_string instrument 0x0009 8) (\<lambda>serial_number.
     bind_io (read_register instrument 0x0011 None) (\<lambda>hw_version.
     bind_io (read_register instrument 0x0012 None) (\<lambda>product_id.
     return_io (PyDict [
       (''layout_version'', layout_version),
       (''firmware_version'', firmware_version),
       (''serial_number'', serial_number),
       (''hw_version'', hw_version),
       (''product_id'', product_id)]))))))"

definition get_status :: "instrument \<Rightarrow> pyval io" where
  "get_status instrument =
     bind_io (read_register instrument 0x0100 None) (\<lambda>evse_state.
     bind_io (read_register instrument 0x0101 None) (\<lambda>external_charging_release_state.
     bind_io (read_register instrument 0x0102 None) (\<lambda>external_downgrading_state.
     bind_io (read_register instrument 0x0103 None) (\<lambda>phase_rotation.
     bind_io (read_register instrument 0x0104 (Some 2)) (\<lambda>bootup_token.
     return_io (PyDict [
       (''evse_state'', evse_state),
       (''external_charging_release_state'', external_charging_release_state),
       (''external_downgrading_state'', external_downgrading_state),
       (''phase_rotation'', phase_rotation),
       (''bootup_token'', bootup_token)]))))))"

definition get_configuration :: "instrument \<Rightarrow> pyval io" where
  "get_configuration instrument =
     bind_io (read_float instrument 0x0300) (\<lambda>external_downgrading_current.
     bind_io (read_float instrument 0x0302) (\<lambda>external_charging_current_limitation_v.
     bind_io (read_float instrument 0x0304) (\<lambda>max_current_evse_group.
     bind_io (read_float instrument 0x0306) (\<lambda>max_current_evse.
     bind_io (read_register instrument 0x030A None) (\<lambda>selective_phase_switching_option.
     return_io (PyDict [
       (''external_downgrading_current'', external_downgrading_current),
       (''external_charging_current_limitation'', external_charging_current_limitation_v),
       (''max_current_evse_group'', max_current_evse_group),
       (''max_current_evse'', max_current_evse),
       (''selective_phase_switching_option'', selective_phase_switching_option)]))))))"

definition set_configuration :: "instrument \<Rightarrow> Configuration \<Rightarrow> pyval io" where
  "set_configuration instrument config =
     bind_io (case external_charging_current_limitation config of
                Some v \<Rightarrow> write_float instrument 0x0302 v
              | None \<Rightarrow> return_io ()) (\<lambda>_.
     return_io (PyDict [(''status'', PyStr ''Configuration updated'')]))"

definition get_output_measurements :: "instrument \<Rightarrow> pyval io" where
  "get_output_measurements instrument =
     bind_io (read_float instrument 0x0500) (\<lambda>current_l1.
     bind_io (read_float instrument 0x0502) (\<lambda>current_l2.
     bind_io (read_float instrument 0x0504) (\<lambda>current_l3.
     bind_io (read_float instrument 0x0506) (\<lambda>voltage_l1.
     bind_io (read_float instrument 0x0508) (\<lambda>voltage_l2.
     bind_io (read_float instrument 0x050A) (\<lambda>voltage_l3.
     bind_io (read_float instrument 0x050C) (\<lambda>power_l1.
     bind_io (read_float instrument 0x050E) (\<lambda>power_l2.
     bind_io (read_float instrument 0x0510) (\<lambda>power_l3.
     bind_io (read_float instrument 0x0512) (\<lambda>power_overall.
     return_io (PyDict [
       (''current_l1'', current_l1),
       (''current_l2'', current_l2),
       (''current_l3'', current_l3),
       (''voltage_l1'', voltage_l1),
       (''voltage_l2'', voltage_l2),
       (''voltage_l3'', voltage_l3),
       (''power_l1'', power_l1),
       (''power_l2'', power_l2),
       (''power_l3'', power_l3),
       (''power_overall'', power_overall)])))))))))))"

definition get_charging_session :: "instrument \<Rightarrow> pyval io" where
  "get_charging_session instrument =
     bind_io (read_float instrument 0x0B00) (\<lambda>max_session_charging_current.
     bind_io (read_float instrument 0x0B02) (\<lambda>session_charging_energy.
     bind_io (read_register instrument 0x0B04 (Some 2)) (\<lambda>session_duration.
     return_io (PyDict [
       (''max_session_charging_current'', max_session_charging_current),
       (''session_charging_energy'', session_charging_energy),
       (''session_duration'', session_duration)]))))"

definition get_functions :: "instrument \<Rightarrow> pyval io" where
  "get_functions instrument =
     bind_io (read_register instrument 0x0D03 None) (\<lambda>solar_charge_mode_v.
     bind_io (read_register instrument 0x0D04 None) (\<lambda>req_phase_usage_v.
     bind_io (read_register instrument 0x0D05 None) (\<lambda>charging_release_v.
     bind_io (read_register instrument 0x0D06 None) (\<lambda>lockmode_v.
     return_io (PyDict [
       (''solar_charge_mode'', solar_charge_mode_v),
       (''req_phase_usage'', req_phase_usage_v),
       (''charging_release'', charging_release_v),
       (''lockmode'', lockmode_v)])))))"

definition set_functions :: "instrument \<Rightarrow> Functions \<Rightarrow> pyval io" where
  "set_functions instrument func =
     bind_io (case master_heartbeat func of
                Some v \<Rightarrow> write_register instrument 0x0D00 v
              | None \<Rightarrow> return_io ()) (\<lambda>_.
     bind_io (case solar_charge_mode func of
                Some v \<Rightarrow> write_register instrument 0x0D03 v
              | None \<Rightarrow> return_io ()) (\<lambda>_.
     bind_io (case req_phase_usage func of
                Some v \<Rightarrow> write_register instrument 0x0D04 v
              | None \<Rightarrow> return_io ()) (\<lambda>_.
     bind_io (case charging_release func of
                Some v \<Rightarrow> write_register instrument 0x0D05 v
              | None \<Rightarrow> return_io ()) (\<lambda>_.
     bind_io (case lockmode func of
                Some v \<Rightarrow> write_register instrument 0x0D06 v
              | None \<Rightarrow> return_io ()) (\<lambda>_.
     return_io (PyDict [(''status'', PyStr ''Functions updated'')]))))))"

definition get_diagnostic :: "instrument \<Rightarrow> pyval io" where
  "get_diagnostic instrument =
     bind_io (read_register instrument 0x0E00 (Some 2)) (\<lambda>last_error_code.
     return_io (PyDict [(''last_error_code'', last_error_code)]))"

text \<open>The \<^verbatim>\<open>@app.get\<close> decorators: the table of the GET routes, in source order.\<close>

definition get_routes :: "(string \<times> (instrument \<Rightarrow> pyval io)) list" where
  "get_routes = [
     (''/api/version_info'', get_version_info),
     (''/api/status'', get_status),
     (''/api/configuration'', get_configuration),
     (''/api/output_measurements'', get_output_measurements),
     (''/api/charging_session'', get_charging_session),
     (''/api/functions'', get_functions),
     (''/api/diagnostic'', get_diagnostic)]"

definition app_get :: "string \<Rightarrow> (instrument \<Rightarrow> pyval io) option" where
  "app_get path = map_of get_routes path"

section \<open>The HTTP boundary\<close>

record http_response =
  status_code :: int
  body :: pyval

text \<open>
  Modelled from the spec: the router (FastAPI) is an external collaborator and is not
  under \<^verbatim>\<open>src/\<close>. What a handler returns is sent as the body of a 200 response; an
  \<^verbatim>\<open>HTTPException(status_code, detail)\<close> is sent with that status and the body
  \<^verbatim>\<open>{"detail": detail}\<close>; any other exception leaves the handler unhandled and is
  answered with a bare 500.
\<close>

definition respond :: "exn + pyval \<Rightarrow> http_response" where
  "respond r =
     (case r of
        Inr v \<Rightarrow> \<lparr>status_code = 200, body = v\<rparr>
      | Inl (HTTPException code detail) \<Rightarrow>
          \<lparr>status_code = code, body = PyDict [(''detail'', PyStr detail)]\<rparr>
      | Inl x \<Rightarrow> \<lparr>status_code = 500, body = PyStr ''Internal Server Error''\<rparr>)"

text \<open>
  A GET request: the router looks the path up among the routes (an unknown path is
  answered with 404 by the router itself), runs the handler and renders what it returns
  or raises.
\<close>

definition http_get :: "instrument \<Rightarrow> string \<Rightarrow> call list \<Rightarrow> http_response \<times> call list" where
  "http_get instrument path h =
     (case app_get path of
        None \<Rightarrow> (\<lparr>status_code = 404, body = PyDict [(''detail'', PyStr ''Not Found'')]\<rparr>, h)
      | Some handler \<Rightarrow> (case handler instrument h of (r, h') \<Rightarrow> (respond r, h')))"

section \<open>The register map of the specification\<close>

text \<open>
  The specification describes a Transport Adapter verb as exactly one exchange whose
  fault is re-signalled uniformly, and a handler as a fixed sequence of such verbs that
  the first failure aborts. \<open>spec_verb\<close> is one such verb; \<open>spec_exchanges\<close> runs a
  list of calls in that way and collects the values read.
\<close>

definition spec_verb :: "instrument \<Rightarrow> call \<Rightarrow> pyval io" where
  "spec_verb instrument c h =
     (case instrument h c of
        Inr v \<Rightarrow> (Inr v, h @ [c])
      | Inl (ModbusException cls e) \<Rightarrow> (Inl (HTTPException 500 e), h @ [c])
      | Inl x \<Rightarrow> (Inl x, h @ [c]))"

fun spec_exchanges :: "instrument \<Rightarrow> call list \<Rightarrow> (pyval list) io" where
  "spec_exchanges instrument [] = return_io []"
| "spec_exchanges instrument (c # cs) =
     bind_io (spec_verb instrument c) (\<lambda>v.
     bind_io (spec_exchanges instrument cs) (\<lambda>vs.
     return_io (v # vs)))"

text \<open>
  A read-style resource of the specification: the named fields in their fixed order,
  each with the exchange that reads it. The aggregate is assembled only when every
  exchange has succeeded.
\<close>

definition spec_aggregate :: "instrument \<Rightarrow> (string \<times> call) list \<Rightarrow> pyval io" where
  "spec_aggregate instrument entries h =
     (case spec_exchanges instrument (map snd entries) h of
        (Inl x, h') \<Rightarrow> (Inl x, h')
      | (Inr vs, h') \<Rightarrow> (Inr (PyDict (zip (map fst entries) vs)), h'))"

text \<open>
  The read-only field maps of section 4.3 of the specification, by path: an integer
  field is a single-register read, a long field a read of two registers, a float field
  a float read and a string field of length 8 a string read.
\<close>

definition spec_field_map :: "(string \<times> (string \<times> call) list) list" where
  "spec_field_map = [
     (''/api/version_info'', [
        (''layout_version'', ReadRegister 0x0000),
        (''firmware_version'', ReadString 0x0001 8),
        (''serial_number'', ReadString 0x0009 8),
        (''hw_version'', ReadRegister 0x0011),
        (''product_id'', ReadRegister 0x0012)]),
     (''/api/status'', [
        (''evse_state'', ReadRegister 0x0100),
        (''external_charging_release_state'', ReadRegister 0x0101),
        (''external_downgrading_state'', ReadRegister 0x0102),
        (''phase_rotation'', ReadRegister 0x0103),
        (''bootup_token'', ReadLong 0x0104 2)]),
     (''/api/configuration'', [
        (''external_downgrading_current'', ReadFloat 0x0300),
        (''external_charging_current_limitation'', ReadFloat 0x0302),
        (''max_current_evse_group'', ReadFloat 0x0304),
        (''max_current_evse'', ReadFloat 0x0306),
        (''selective_phase_switching_option'', ReadRegister 0x030A)]),
     (''/api/output_measurements'', [
        (''current_l1'', ReadFloat 0x0500),
        (''current_l2'', ReadFloat 0x0502),
        (''current_l3'', ReadFloat 0x0504),
        (''voltage_l1'', ReadFloat 0x0506),
        (''voltage_l2'', ReadFloat 0x0508),
        (''voltage_l3'', ReadFloat 0x050A),
        (''power_l1'', ReadFloat 0x050C),
        (''power_l2'', ReadFloat 0x050E),
        (''power_l3'', ReadFloat 0x0510),
        (''power_overall'', ReadFloat 0x0512)]),
     (''/api/charging_session'', [
        (''max_session_charging_current'', ReadFloat 0x0B00),
        (''session_charging_energy'', ReadFloat 0x0B02),
        (''session_duration'', ReadLong 0x0B04 2)]),
     (''/api/functions'', [
        (''solar_charge_mode'', ReadRegister 0x0D03),
        (''req_phase_usage'', ReadRegister 0x0D04),
        (''charging_release'', ReadRegister 0x0D05),
        (''lockmode'', ReadRegister 0x0D06)]),
     (''/api/diagnostic'', [
        (''last_error_code'', ReadLong 0x0E00 2)])]"

text \<open>
  The functions payload of the specification, in its required write order, and the
  writes it asks for: one integer register write for each field that is present.
\<close>

definition spec_functions_order :: "((Functions \<Rightarrow> int option) \<times> int) list" where
  "spec_functions_order = [
     (master_heartbeat, 0x0D00),
     (solar_charge_mode, 0x0D03),
     (req_phase_usage, 0x0D04),
     (charging_release, 0x0D05),
     (lockmode, 0x0D06)]"

definition spec_functions_writes :: "Functions \<Rightarrow> call list" where
  "spec_functions_writes func =
     concat (map (\<lambda>(field, address).
                    case field func of None \<Rightarrow> [] | Some v \<Rightarrow> [WriteRegister address v])
                 spec_functions_order)"

section \<open>Device doubles\<close>

text \<open>
  A register bank: every register holds a 16-bit word; a long spans two consecutive
  registers, the high word first. A long read of any other number of registers is
  refused with \<^verbatim>\<open>ValueError\<close>, which is not a \<^verbatim>\<open>ModbusException\<close>, as the library
  refuses a count it does not support. Any other access is answered by a slave
  exception.
\<close>

definition register_bank :: "(int \<rightharpoonup> int) \<Rightarrow> instrument" where
  "register_bank regs h c =
     (case c of
        ReadRegister a \<Rightarrow>
          (case regs a of
             Some w \<Rightarrow> Inr (PyInt w)
           | None \<Rightarrow> Inl (ModbusException ''IllegalRequestError'' ''Slave reported illegal data address''))
      | ReadLong a n \<Rightarrow>
          (case (regs a, regs (a + 1)) of
             (Some hi, Some lo) \<Rightarrow>
               if n = 2 then Inr (PyInt (hi * 65536 + lo))
               else Inl (OtherException ''ValueError'')
           | _ \<Rightarrow> Inl (ModbusException ''IllegalRequestError'' ''Slave reported illegal data address''))
      | _ \<Rightarrow> Inl (ModbusException ''IllegalRequestError'' ''Slave reported illegal function''))"

definition status_registers :: "int \<rightharpoonup> int" where
  "status_registers =
     [0x0100 \<mapsto> 3, 0x0101 \<mapsto> 1, 0x0102 \<mapsto> 0, 0x0103 \<mapsto> 1, 0x0104 \<mapsto> 1, 0x0105 \<mapsto> 57920]"

text \<open>A device that answers its first \<open>n\<close> exchanges and then stops answering.\<close>

definition silent_after :: "nat \<Rightarrow> instrument" where
  "silent_after n h c =
     (if length h < n then Inr (PyInt 0)
      else Inl (ModbusException ''NoResponseError'' ''No communication with the instrument (no answer)''))"

text \<open>
  A serial link that is down: every call raises \<^verbatim>\<open>serial.SerialException\<close>, which like
  \<^verbatim>\<open>ModbusException\<close> is an \<^verbatim>\<open>IOError\<close> but is not a \<^verbatim>\<open>ModbusException\<close>.
\<close>

definition serial_fault :: instrument where
  "serial_fault h c = Inl (OtherException ''SerialException'')"

section \<open>The helpers are the verbs of the specification\<close>

lemma read_register_verb:
  "read_register ins a None = spec_verb ins (ReadRegister a)"
  "read_register ins a (Some n) = (if n = 1 then spec_verb ins (ReadRegister a) else spec_verb ins (ReadLong a n))"
  by (auto simp: read_register_def spec_verb_def call_instrument_def fun_eq_iff split: sum.splits exn.splits)

lemma read_string_verb: "read_string ins a n = spec_verb ins (ReadString a n)"
  by (auto simp: read_string_def spec_verb_def call_instrument_def fun_eq_iff split: sum.splits exn.splits)

lemma read_float_verb: "read_float ins a = spec_verb ins (ReadFloat a)"
  by (auto simp: read_float_def spec_verb_def call_instrument_def fun_eq_iff split: sum.splits exn.splits)

lemma write_register_verb: "write_register ins a v = bind_io (spec_verb ins (WriteRegister a v)) (\<lambda>_. return_io ())"
  by (auto simp: write_register_def spec_verb_def call_instrument_def bind_io_def return_io_def fun_eq_iff split: sum.splits exn.splits)

lemma write_float_verb: "write_float ins a v = bind_io (spec_verb ins (WriteFloat a v)) (\<lambda>_. return_io ())"
  by (auto simp: write_float_def spec_verb_def call_instrument_def bind_io_def return_io_def fun_eq_iff split: sum.splits exn.splits)

lemma get_status_spec:
  "get_status ins = spec_aggregate ins
     [(''evse_state'', ReadRegister 0x0100),
        (''external_charging_release_state'', ReadRegister 0x0101),
        (''external_downgrading_state'', ReadRegister 0x0102),
        (''phase_rotation'', ReadRegister 0x0103),
        (''bootup_token'', ReadLong 0x0104 2)]"
  unfolding get_status_def read_register_verb read_string_verb read_float_verb
  by (auto simp: spec_aggregate_def bind_io_def return_io_def fun_eq_iff split: sum.splits prod.splits)








lemma routes_covered: "map fst get_routes = map fst spec_field_map"
  by (simp add: get_routes_def spec_field_map_def)

lemma set_functions_spec:
  "set_functions ins func =
     bind_io (spec_exchanges ins (spec_functions_writes func))
       (\<lambda>_. return_io (PyDict [(''status'', PyStr ''Functions updated'')]))"
  by (cases "master_heartbeat func"; cases "solar_charge_mode func"; cases "req_phase_usage func";
      cases "charging_release func"; cases "lockmode func";
      auto simp: set_functions_def spec_functions_writes_def spec_functions_order_def
        write_register_verb bind_io_def return_io_def fun_eq_iff split: prod.splits sum.splits)

section \<open>Sequences of exchanges\<close>

lemma spec_verb_Inr: "ins h c = Inr v \<Longrightarrow> spec_verb ins c h = (Inr v, h @ [c])"
  by (simp add: spec_verb_def)


lemma spec_verb_trace: "snd (spec_verb ins c h) = h @ [c]"
  by (simp add: spec_verb_def split: sum.splits exn.splits)

lemma spec_verb_result_Inr: "spec_verb ins c h = (Inr v, h') \<Longrightarrow> ins h c = Inr v \<and> h' = h @ [c]"
  by (auto simp: spec_verb_def split: sum.splits exn.splits)


lemma spec_exchanges_Inr:
  "spec_exchanges ins cs h = (Inr vs, h') \<Longrightarrow>
     h' = h @ cs \<and> length vs = length cs \<and> (\<forall>i<length cs. ins (h @ take i cs) (cs ! i) = Inr (vs ! i))"
proof (induction cs arbitrary: h vs)
  case Nil
  then show ?case by (simp add: return_io_def)
next
  case (Cons c cs)
  from Cons.prems obtain v ws h1 where
    v: "spec_verb ins c h = (Inr v, h1)" and ws: "spec_exchanges ins cs h1 = (Inr ws, h')" and vs: "vs = v # ws"
    by (auto simp: bind_io_def return_io_def split: prod.splits sum.splits)
  from spec_verb_result_Inr [OF v] have c: "ins h c = Inr v" and h1: "h1 = h @ [c]" by simp_all
  from Cons.IH [OF ws] have IH: "h' = h1 @ cs" "length ws = length cs"
    "\<forall>i<length cs. ins (h1 @ take i cs) (cs ! i) = Inr (ws ! i)" by simp_all
  have "\<forall>i<length (c # cs). ins (h @ take i (c # cs)) ((c # cs) ! i) = Inr (vs ! i)"
  proof (intro allI impI)
    fix i assume i: "i < length (c # cs)"
    show "ins (h @ take i (c # cs)) ((c # cs) ! i) = Inr (vs ! i)"
    proof (cases i)
      case 0 then show ?thesis using c vs by simp
    next
      case (Suc j)
      then have "j < length cs" using i by simp
      with IH(3) have "ins (h1 @ take j cs) (cs ! j) = Inr (ws ! j)" by blast
      then show ?thesis using Suc vs h1 by simp
    qed
  qed
  then show ?case using IH h1 vs by simp
qed

lemma spec_exchanges_ok:
  assumes "length vs = length cs"
    and "\<forall>i<length cs. ins (h @ take i cs) (cs ! i) = Inr (vs ! i)"
  shows "spec_exchanges ins cs h = (Inr vs, h @ cs)"
  using assms
proof (induction cs arbitrary: h vs)
  case Nil
  then show ?case by (simp add: return_io_def)
next
  case (Cons c cs)
  from Cons.prems(1) obtain v ws where vs: "vs = v # ws" and len: "length ws = length cs"
    by (cases vs) auto
  from Cons.prems(2) have c: "ins h c = Inr v" using vs by fastforce
  have "\<forall>i<length cs. ins ((h @ [c]) @ take i cs) (cs ! i) = Inr (ws ! i)"
  proof (intro allI impI)
    fix i assume "i < length cs"
    then have "Suc i < length (c # cs)" by simp
    with Cons.prems(2) have "ins (h @ take (Suc i) (c # cs)) ((c # cs) ! Suc i) = Inr (vs ! Suc i)" by blast
    then show "ins ((h @ [c]) @ take i cs) (cs ! i) = Inr (ws ! i)" using vs by simp
  qed
  from Cons.IH [OF len this] have "spec_exchanges ins cs (h @ [c]) = (Inr ws, (h @ [c]) @ cs)" .
  then show ?case using c vs by (simp add: bind_io_def return_io_def spec_verb_Inr)
qed

lemma spec_exchanges_prefix:
  "\<exists>k\<le>length cs. snd (spec_exchanges ins cs h) = h @ take k cs"
proof (induction cs arbitrary: h)
  case Nil
  then show ?case by (simp add: return_io_def)
next
  case (Cons c cs)
  obtain r h1 where r: "spec_verb ins c h = (r, h1)" by (cases "spec_verb ins c h")
  then have h1: "h1 = h @ [c]" using spec_verb_trace [of ins c h] by simp
  show ?case
  proof (cases r)
    case (Inl e)
    then have "snd (spec_exchanges ins (c # cs) h) = h @ take 1 (c # cs)"
      using r h1 by (simp add: bind_io_def)
    then show ?thesis by (intro exI [of _ 1]) simp
  next
    case (Inr v)
    from Cons.IH [of h1] obtain k where k: "k \<le> length cs" "snd (spec_exchanges ins cs h1) = h1 @ take k cs" by blast
    have "snd (spec_exchanges ins (c # cs) h) = h @ take (Suc k) (c # cs)"
      using r Inr k h1 by (auto simp: bind_io_def return_io_def split: prod.splits sum.splits)
    then show ?thesis using k(1) by (intro exI [of _ "Suc k"]) simp
  qed
qed

lemma spec_exchanges_ok_ex:
  assumes "\<forall>i<length cs. \<exists>v. ins (h @ take i cs) (cs ! i) = Inr v"
  shows "\<exists>vs. spec_exchanges ins cs h = (Inr vs, h @ cs)"
  using assms
proof (induction cs arbitrary: h)
  case Nil
  then show ?case by (simp add: return_io_def)
next
  case (Cons c cs)
  from Cons.prems obtain v where c: "ins h c = Inr v" by fastforce
  have "\<forall>i<length cs. \<exists>v. ins ((h @ [c]) @ take i cs) (cs ! i) = Inr v"
  proof (intro allI impI)
    fix i assume "i < length cs"
    then have "Suc i < length (c # cs)" by simp
    with Cons.prems have "\<exists>v. ins (h @ take (Suc i) (c # cs)) ((c # cs) ! Suc i) = Inr v" by blast
    then show "\<exists>v. ins ((h @ [c]) @ take i cs) (cs ! i) = Inr v" by simp
  qed
  from Cons.IH [OF this] obtain ws where "spec_exchanges ins cs (h @ [c]) = (Inr ws, (h @ [c]) @ cs)"
    by blast
  then show ?case using c by (simp add: bind_io_def return_io_def spec_verb_Inr)
qed

lemma spec_aggregate_trace:
  "snd (spec_aggregate ins entries h) = snd (spec_exchanges ins (map snd entries) h)"
  by (simp add: spec_aggregate_def split: prod.splits sum.splits)

lemma set_functions_trace:
  "snd (set_functions ins func h) = snd (spec_exchanges ins (spec_functions_writes func) h)"
  by (simp add: set_functions_spec bind_io_def return_io_def split: prod.splits sum.splits)

lemma spec_functions_writes_unfold:
  "spec_functions_writes func =
     (case master_heartbeat func of None \<Rightarrow> [] | Some v \<Rightarrow> [WriteRegister 0x0D00 v])
     @ (case solar_charge_mode func of None \<Rightarrow> [] | Some v \<Rightarrow> [WriteRegister 0x0D03 v])
     @ (case req_phase_usage func of None \<Rightarrow> [] | Some v \<Rightarrow> [WriteRegister 0x0D04 v])
     @ (case charging_release func of None \<Rightarrow> [] | Some v \<Rightarrow> [WriteRegister 0x0D05 v])
     @ (case lockmode func of None \<Rightarrow> [] | Some v \<Rightarrow> [WriteRegister 0x0D06 v])"
  by (simp add: spec_functions_writes_def spec_functions_order_def)



section \<open>The claims\<close>

text \<open>
  The faults that are caught. In every helper (\<open>read_register\<close> on both of its branches,
  \<open>read_string\<close>, \<open>read_float\<close>, \<open>write_register\<close>, \<open>write_float\<close>) a \<open>ModbusException\<close>
  raised by the instrument is caught and raised again as \<open>HTTPException 500\<close> with the
  message of the underlying exception as its detail, whatever the class of the
  exception; the helper has made exactly one call on the instrument (no retry), and the
  caller of the HTTP interface is answered with status 500 and the body
  \<^verbatim>\<open>{"detail": msg}\<close>.
\<close>

lemma modbus_exception_is_http_500:
  "(ins h (ReadRegister a) = Inl (ModbusException cls msg) \<longrightarrow>
      read_register ins a None h = (Inl (HTTPException 500 msg), h @ [ReadRegister a]))
   \<and> (n \<noteq> 1 \<and> ins h (ReadLong a n) = Inl (ModbusException cls msg) \<longrightarrow>
      read_register ins a (Some n) h = (Inl (HTTPException 500 msg), h @ [ReadLong a n]))
   \<and> (ins h (ReadString a len) = Inl (ModbusException cls msg) \<longrightarrow>
      read_string ins a len h = (Inl (HTTPException 500 msg), h @ [ReadString a len]))
   \<and> (ins h (ReadFloat a) = Inl (ModbusException cls msg) \<longrightarrow>
      read_float ins a h = (Inl (HTTPException 500 msg), h @ [ReadFloat a]))
   \<and> (ins h (WriteRegister a v) = Inl (ModbusException cls msg) \<longrightarrow>
      write_register ins a v h = (Inl (HTTPException 500 msg), h @ [WriteRegister a v]))
   \<and> (ins h (WriteFloat a x) = Inl (ModbusException cls msg) \<longrightarrow>
      write_float ins a x h = (Inl (HTTPException 500 msg), h @ [WriteFloat a x]))
   \<and> respond (Inl (HTTPException 500 msg)) =
        \<lparr>status_code = 500, body = PyDict [(''detail'', PyStr msg)]\<rparr>"
  by (simp add: read_register_def read_string_def read_float_def write_register_def
      write_float_def call_instrument_def respond_def)

lemma modbus_exception_is_http_500_example:
  "silent_after 0 [] (ReadRegister 0x0100) =
     Inl (ModbusException ''NoResponseError'' ''No communication with the instrument (no answer)'')
   \<and> read_register (silent_after 0) 0x0100 None [] =
     (Inl (HTTPException 500 ''No communication with the instrument (no answer)''), [ReadRegister 0x0100])
   \<and> read_register (silent_after 0) 0x0104 (Some 2) [] =
     (Inl (HTTPException 500 ''No communication with the instrument (no answer)''), [ReadLong 0x0104 2])
   \<and> read_string (silent_after 0) 0x0001 8 [] =
     (Inl (HTTPException 500 ''No communication with the instrument (no answer)''), [ReadString 0x0001 8])
   \<and> read_float (silent_after 0) 0x0300 [] =
     (Inl (HTTPException 500 ''No communication with the instrument (no answer)''), [ReadFloat 0x0300])
   \<and> write_register (silent_after 0) 0x0D06 1 [] =
     (Inl (HTTPException 500 ''No communication with the instrument (no answer)''), [WriteRegister 0x0D06 1])
   \<and> write_float (silent_after 0) 0x0302 0x4030000000000000 [] =
     (Inl (HTTPException 500 ''No communication with the instrument (no answer)''),
      [WriteFloat 0x0302 0x4030000000000000])"
proof -
  have s: "\<And>c. silent_after 0 [] c =
     Inl (ModbusException ''NoResponseError'' ''No communication with the instrument (no answer)'')"
    by (simp add: silent_after_def)
  have two: "(2::int) \<noteq> 1" by simp
  note t = modbus_exception_is_http_500 [of "silent_after 0" "[]" _ "''NoResponseError''"
      "''No communication with the instrument (no answer)''" 2]
  show ?thesis
    using t [of "0x0100" 8 1 "0x4030000000000000"] t [of "0x0104" 8 1 "0x4030000000000000"]
      t [of "0x0001" 8 1 "0x4030000000000000"] t [of "0x0300" 8 1 "0x4030000000000000"]
      t [of "0x0D06" 8 1 "0x4030000000000000"] t [of "0x0302" 8 1 "0x4030000000000000"] s two
    by simp
qed

text \<open>
  Claim C1. The claim is that any transport-level fault of the exchange reaches the HTTP
  caller as status 500 with the body \<^verbatim>\<open>{"detail": msg}\<close>, and every helper's docstring
  promises an \<open>HTTPException\<close> if an error occurs during the operation. The code does
  not do this: the helpers catch \<^verbatim>\<open>minimalmodbus.ModbusException\<close> only. When the serial
  link is down the instrument raises \<^verbatim>\<open>serial.SerialException\<close>; each of the five helpers
  lets it through unchanged after its one call, no \<open>HTTPException\<close> is raised, and the
  requests GET \<^verbatim>\<open>/api/status\<close> and POST \<^verbatim>\<open>/api/configuration\<close> are answered with a bare
  500 that carries no \<^verbatim>\<open>detail\<close>.
\<close>

theorem transport_fault_uncaught:
  "read_register serial_fault 0x0100 None [] =
     (Inl (OtherException ''SerialException''), [ReadRegister 0x0100])
   \<and> read_register serial_fault 0x0104 (Some 2) [] =
     (Inl (OtherException ''SerialException''), [ReadLong 0x0104 2])
   \<and> read_string serial_fault 0x0001 8 [] =
     (Inl (OtherException ''SerialException''), [ReadString 0x0001 8])
   \<and> read_float serial_fault 0x0300 [] =
     (Inl (OtherException ''SerialException''), [ReadFloat 0x0300])
   \<and> write_register serial_fault 0x0D06 1 [] =
     (Inl (OtherException ''SerialException''), [WriteRegister 0x0D06 1])
   \<and> write_float serial_fault 0x0302 0x4030000000000000 [] =
     (Inl (OtherException ''SerialException''), [WriteFloat 0x0302 0x4030000000000000])
   \<and> http_get serial_fault ''/api/status'' [] =
     (\<lparr>status_code = 500, body = PyStr ''Internal Server Error''\<rparr>, [ReadRegister 0x0100])
   \<and> respond (fst (set_configuration serial_fault
        \<lparr>external_charging_current_limitation = Some 0x4030000000000000\<rparr> [])) =
     \<lparr>status_code = 500, body = PyStr ''Internal Server Error''\<rparr>"
proof -
  have r: "app_get ''/api/status'' = Some get_status"
    by (simp add: app_get_def get_routes_def)
  have helpers: "read_register serial_fault 0x0100 None [] =
     (Inl (OtherException ''SerialException''), [ReadRegister 0x0100])"
    "read_register serial_fault 0x0104 (Some 2) [] =
     (Inl (OtherException ''SerialException''), [ReadLong 0x0104 2])"
    "read_string serial_fault 0x0001 8 [] =
     (Inl (OtherException ''SerialException''), [ReadString 0x0001 8])"
    "read_float serial_fault 0x0300 [] =
     (Inl (OtherException ''SerialException''), [ReadFloat 0x0300])"
    "write_register serial_fault 0x0D06 1 [] =
     (Inl (OtherException ''SerialException''), [WriteRegister 0x0D06 1])"
    "write_float serial_fault 0x0302 0x4030000000000000 [] =
     (Inl (OtherException ''SerialException''), [WriteFloat 0x0302 0x4030000000000000])"
    by (simp_all add: read_register_def read_string_def read_float_def write_register_def
        write_float_def call_instrument_def serial_fault_def)
  have status: "http_get serial_fault ''/api/status'' [] =
     (\<lparr>status_code = 500, body = PyStr ''Internal Server Error''\<rparr>, [ReadRegister 0x0100])"
    by (simp add: http_get_def r get_status_def bind_io_def helpers(1) respond_def)
  have config: "respond (fst (set_configuration serial_fault
        \<lparr>external_charging_current_limitation = Some 0x4030000000000000\<rparr> [])) =
     \<lparr>status_code = 500, body = PyStr ''Internal Server Error''\<rparr>"
    by (simp add: set_configuration_def bind_io_def helpers(6) respond_def)
  from helpers status config show ?thesis by simp
qed




text \<open>
  Claim C6. Both write-style handlers, given a payload with every field absent, make
  no call on the instrument and return their acknowledgment, which is sent as a 200
  response.
\<close>
theorem absent_payload_is_noop:
  "set_configuration ins \<lparr>external_charging_current_limitation = None\<rparr> h =
     (Inr (PyDict [(''status'', PyStr ''Configuration updated'')]), h)
   \<and> set_functions ins \<lparr>master_heartbeat = None, solar_charge_mode = None,
        req_phase_usage = None, charging_release = None, lockmode = None\<rparr> h =
     (Inr (PyDict [(''status'', PyStr ''Functions updated'')]), h)
   \<and> respond (Inr (PyDict [(''status'', PyStr ''Configuration updated'')])) =
       \<lparr>status_code = 200, body = PyDict [(''status'', PyStr ''Configuration updated'')]\<rparr>
   \<and> respond (Inr (PyDict [(''status'', PyStr ''Functions updated'')])) =
       \<lparr>status_code = 200, body = PyDict [(''status'', PyStr ''Functions updated'')]\<rparr>"
  by (simp add: set_configuration_def set_functions_def bind_io_def return_io_def respond_def)

text \<open>
  Claim C5. \<open>set_configuration\<close> with \<open>external_charging_current_limitation\<close> present makes
  exactly one call on the instrument, the float write of exactly the given value to
  register 0x0302; when that write succeeds the handler returns
  \<^verbatim>\<open>{"status": "Configuration updated"}\<close>.
\<close>
theorem set_configuration_one_float_write:
  "snd (set_configuration ins \<lparr>external_charging_current_limitation = Some x\<rparr> h) =
     h @ [WriteFloat 0x0302 x]
   \<and> (ins h (WriteFloat 0x0302 x) = Inr v \<longrightarrow>
        set_configuration ins \<lparr>external_charging_current_limitation = Some x\<rparr> h =
          (Inr (PyDict [(''status'', PyStr ''Configuration updated'')]), h @ [WriteFloat 0x0302 x])
        \<and> respond (fst (set_configuration ins \<lparr>external_charging_current_limitation = Some x\<rparr> h)) =
          \<lparr>status_code = 200, body = PyDict [(''status'', PyStr ''Configuration updated'')]\<rparr>)"
  by (auto simp: set_configuration_def write_float_def call_instrument_def bind_io_def
      return_io_def respond_def split: sum.splits exn.splits)

theorem set_configuration_one_float_write_witness:
  "silent_after 1 [] (WriteFloat 0x0302 0x4030000000000000) = Inr (PyInt 0)
   \<and> set_configuration (silent_after 1)
        \<lparr>external_charging_current_limitation = Some 0x4030000000000000\<rparr> [] =
      (Inr (PyDict [(''status'', PyStr ''Configuration updated'')]),
       [WriteFloat 0x0302 0x4030000000000000])"
proof -
  have s: "silent_after 1 [] (WriteFloat 0x0302 0x4030000000000000) = Inr (PyInt 0)"
    by (simp add: silent_after_def)
  show ?thesis
    using set_configuration_one_float_write [of "silent_after 1" "0x4030000000000000" "[]" "PyInt 0"] s
    by simp
qed




text \<open>
  Claim C2. \<open>set_functions\<close> goes through the payload in the order master_heartbeat,
  solar_charge_mode, req_phase_usage, charging_release, lockmode: the calls it makes
  are always an initial part of the list that has one integer register write, to
  0x0D00, 0x0D03, 0x0D04, 0x0D05, 0x0D06 respectively, for each field that is present
  and nothing for an absent one; they are the whole list when no write raises, and
  whenever the handler returns. With only lockmode present the handler makes exactly
  one call, the write to 0x0D06.
\<close>

theorem set_functions_writes_in_order:
  "spec_functions_writes func =
     (case master_heartbeat func of None \<Rightarrow> [] | Some v \<Rightarrow> [WriteRegister 0x0D00 v])
     @ (case solar_charge_mode func of None \<Rightarrow> [] | Some v \<Rightarrow> [WriteRegister 0x0D03 v])
     @ (case req_phase_usage func of None \<Rightarrow> [] | Some v \<Rightarrow> [WriteRegister 0x0D04 v])
     @ (case charging_release func of None \<Rightarrow> [] | Some v \<Rightarrow> [WriteRegister 0x0D05 v])
     @ (case lockmode func of None \<Rightarrow> [] | Some v \<Rightarrow> [WriteRegister 0x0D06 v])
   \<and> (\<exists>k\<le>length (spec_functions_writes func).
        snd (set_functions ins func h) = h @ take k (spec_functions_writes func))
   \<and> ((\<forall>i<length (spec_functions_writes func).
          \<exists>v. ins (h @ take i (spec_functions_writes func)) (spec_functions_writes func ! i) = Inr v) \<longrightarrow>
        set_functions ins func h =
          (Inr (PyDict [(''status'', PyStr ''Functions updated'')]), h @ spec_functions_writes func))
   \<and> (\<forall>r h'. set_functions ins func h = (Inr r, h') \<longrightarrow> h' = h @ spec_functions_writes func)
   \<and> snd (set_functions ins \<lparr>master_heartbeat = None, solar_charge_mode = None,
        req_phase_usage = None, charging_release = None, lockmode = Some w\<rparr> h) =
       h @ [WriteRegister 0x0D06 w]"
proof (intro conjI)
  show "\<exists>k\<le>length (spec_functions_writes func).
        snd (set_functions ins func h) = h @ take k (spec_functions_writes func)"
    using spec_exchanges_prefix [of "spec_functions_writes func" ins h]
    by (simp add: set_functions_trace)
next
  show "(\<forall>i<length (spec_functions_writes func).
          \<exists>v. ins (h @ take i (spec_functions_writes func)) (spec_functions_writes func ! i) = Inr v) \<longrightarrow>
        set_functions ins func h =
          (Inr (PyDict [(''status'', PyStr ''Functions updated'')]), h @ spec_functions_writes func)"
  proof
    assume "\<forall>i<length (spec_functions_writes func).
          \<exists>v. ins (h @ take i (spec_functions_writes func)) (spec_functions_writes func ! i) = Inr v"
    from spec_exchanges_ok_ex [OF this] obtain vs where
      "spec_exchanges ins (spec_functions_writes func) h = (Inr vs, h @ spec_functions_writes func)"
      by blast
    then show "set_functions ins func h =
          (Inr (PyDict [(''status'', PyStr ''Functions updated'')]), h @ spec_functions_writes func)"
      by (simp add: set_functions_spec bind_io_def return_io_def)
  qed
next
  show "\<forall>r h'. set_functions ins func h = (Inr r, h') \<longrightarrow> h' = h @ spec_functions_writes func"
  proof (intro allI impI)
    fix r h' assume a: "set_functions ins func h = (Inr r, h')"
    then obtain vs where "spec_exchanges ins (spec_functions_writes func) h = (Inr vs, h')"
      by (auto simp: set_functions_spec bind_io_def return_io_def split: prod.splits sum.splits)
    from spec_exchanges_Inr [OF this] show "h' = h @ spec_functions_writes func" by simp
  qed
next
  show "snd (set_functions ins \<lparr>master_heartbeat = None, solar_charge_mode = None,
        req_phase_usage = None, charging_release = None, lockmode = Some w\<rparr> h) =
       h @ [WriteRegister 0x0D06 w]"
    by (simp add: set_functions_trace spec_functions_writes_unfold bind_io_def spec_verb_trace
        return_io_def split: prod.splits sum.splits)
       (metis snd_conv spec_verb_trace)
qed (rule spec_functions_writes_unfold)

theorem set_functions_writes_in_order_witness:
  "silent_after 5 [] (WriteRegister 0x0D03 2) = Inr (PyInt 0)
   \<and> silent_after 5 [WriteRegister 0x0D03 2] (WriteRegister 0x0D06 1) = Inr (PyInt 0)
   \<and> set_functions (silent_after 5) \<lparr>master_heartbeat = None, solar_charge_mode = Some 2,
        req_phase_usage = None, charging_release = None, lockmode = Some 1\<rparr> [] =
      (Inr (PyDict [(''status'', PyStr ''Functions updated'')]),
       [WriteRegister 0x0D03 2, WriteRegister 0x0D06 1])"
proof -
  let ?f = "\<lparr>master_heartbeat = None, solar_charge_mode = Some 2,
        req_phase_usage = None, charging_release = None, lockmode = Some 1\<rparr>"
  have w: "spec_functions_writes ?f = [WriteRegister 0x0D03 2, WriteRegister 0x0D06 1]"
    by (simp add: spec_functions_writes_def spec_functions_order_def)
  have a: "silent_after 5 [] (WriteRegister 0x0D03 2) = Inr (PyInt 0)"
    "silent_after 5 [WriteRegister 0x0D03 2] (WriteRegister 0x0D06 1) = Inr (PyInt 0)"
    by (simp_all add: silent_after_def)
  have ok: "\<forall>i<length [WriteRegister 0x0D03 2, WriteRegister 0x0D06 1].
      \<exists>v. silent_after 5 ([] @ take i [WriteRegister 0x0D03 2, WriteRegister 0x0D06 1])
             ([WriteRegister 0x0D03 2, WriteRegister 0x0D06 1] ! i) = Inr v"
    by (simp add: silent_after_def)
  from set_functions_writes_in_order [of ?f "silent_after 5" "[]" 1]
  have "(\<forall>i<length (spec_functions_writes ?f).
          \<exists>v. silent_after 5 ([] @ take i (spec_functions_writes ?f)) (spec_functions_writes ?f ! i) = Inr v) \<longrightarrow>
        set_functions (silent_after 5) ?f [] =
          (Inr (PyDict [(''status'', PyStr ''Functions updated'')]), [] @ spec_functions_writes ?f)"
    by blast
  with ok a show ?thesis unfolding w by simp
qed



text \<open>
  Claim C4. The handler on \<^verbatim>\<open>/api/status\<close> is \<open>get_status\<close>. The calls it makes are always
  an initial part of: single-register reads of 0x0100, 0x0101, 0x0102, 0x0103 and a long
  read of two registers at 0x0104. When the five reads succeed it has made exactly
  these calls and returns their values, in this order, as evse_state,
  external_charging_release_state, external_downgrading_state, phase_rotation and
  bootup_token. Against a register bank holding 3, 1, 0, 1 at 0x0100 to 0x0103 and
  123456 across 0x0104 and 0x0105 the response is 200 with
  \<^verbatim>\<open>{"evse_state":3,"external_charging_release_state":1,"external_downgrading_state":0,
  "phase_rotation":1,"bootup_token":123456}\<close>.
\<close>

theorem get_status_reads_and_fields:
  "app_get ''/api/status'' = Some get_status
   \<and> (\<exists>k\<le>5. snd (get_status ins h) =
        h @ take k [ReadRegister 0x0100, ReadRegister 0x0101, ReadRegister 0x0102,
                    ReadRegister 0x0103, ReadLong 0x0104 2])
   \<and> (ins h (ReadRegister 0x0100) = Inr v1
      \<and> ins (h @ [ReadRegister 0x0100]) (ReadRegister 0x0101) = Inr v2
      \<and> ins (h @ [ReadRegister 0x0100, ReadRegister 0x0101]) (ReadRegister 0x0102) = Inr v3
      \<and> ins (h @ [ReadRegister 0x0100, ReadRegister 0x0101, ReadRegister 0x0102])
            (ReadRegister 0x0103) = Inr v4
      \<and> ins (h @ [ReadRegister 0x0100, ReadRegister 0x0101, ReadRegister 0x0102,
                   ReadRegister 0x0103]) (ReadLong 0x0104 2) = Inr v5 \<longrightarrow>
      get_status ins h =
        (Inr (PyDict [(''evse_state'', v1),
                      (''external_charging_release_state'', v2),
                      (''external_downgrading_state'', v3),
                      (''phase_rotation'', v4),
                      (''bootup_token'', v5)]),
         h @ [ReadRegister 0x0100, ReadRegister 0x0101, ReadRegister 0x0102,
              ReadRegister 0x0103, ReadLong 0x0104 2]))
   \<and> http_get (register_bank status_registers) ''/api/status'' [] =
       (\<lparr>status_code = 200,
         body = PyDict [(''evse_state'', PyInt 3),
                        (''external_charging_release_state'', PyInt 1),
                        (''external_downgrading_state'', PyInt 0),
                        (''phase_rotation'', PyInt 1),
                        (''bootup_token'', PyInt 123456)]\<rparr>,
        [ReadRegister 0x0100, ReadRegister 0x0101, ReadRegister 0x0102,
         ReadRegister 0x0103, ReadLong 0x0104 2])"
proof (intro conjI)
  show r: "app_get ''/api/status'' = Some get_status"
    by (simp add: app_get_def get_routes_def)
  show "\<exists>k\<le>5. snd (get_status ins h) =
        h @ take k [ReadRegister 0x0100, ReadRegister 0x0101, ReadRegister 0x0102,
                    ReadRegister 0x0103, ReadLong 0x0104 2]"
  proof -
    let ?cs = "[ReadRegister 0x0100, ReadRegister 0x0101, ReadRegister 0x0102,
                ReadRegister 0x0103, ReadLong 0x0104 2]"
    from spec_exchanges_prefix [of ?cs ins h] obtain k where
      k: "k \<le> length ?cs" and t: "snd (spec_exchanges ins ?cs h) = h @ take k ?cs"
      by blast
    have "k \<le> 5" using k by simp
    moreover have "snd (get_status ins h) = h @ take k ?cs"
      using t by (simp add: get_status_spec spec_aggregate_trace del: spec_exchanges.simps)
    ultimately show ?thesis by blast
  qed
  show "ins h (ReadRegister 0x0100) = Inr v1
      \<and> ins (h @ [ReadRegister 0x0100]) (ReadRegister 0x0101) = Inr v2
      \<and> ins (h @ [ReadRegister 0x0100, ReadRegister 0x0101]) (ReadRegister 0x0102) = Inr v3
      \<and> ins (h @ [ReadRegister 0x0100, ReadRegister 0x0101, ReadRegister 0x0102])
            (ReadRegister 0x0103) = Inr v4
      \<and> ins (h @ [ReadRegister 0x0100, ReadRegister 0x0101, ReadRegister 0x0102,
                   ReadRegister 0x0103]) (ReadLong 0x0104 2) = Inr v5 \<longrightarrow>
      get_status ins h =
        (Inr (PyDict [(''evse_state'', v1),
                      (''external_charging_release_state'', v2),
                      (''external_downgrading_state'', v3),
                      (''phase_rotation'', v4),
                      (''bootup_token'', v5)]),
         h @ [ReadRegister 0x0100, ReadRegister 0x0101, ReadRegister 0x0102,
              ReadRegister 0x0103, ReadLong 0x0104 2])"
    by (simp add: get_status_def read_register_def call_instrument_def bind_io_def return_io_def)
  show "http_get (register_bank status_registers) ''/api/status'' [] =
       (\<lparr>status_code = 200,
         body = PyDict [(''evse_state'', PyInt 3),
                        (''external_charging_release_state'', PyInt 1),
                        (''external_downgrading_state'', PyInt 0),
                        (''phase_rotation'', PyInt 1),
                        (''bootup_token'', PyInt 123456)]\<rparr>,
        [ReadRegister 0x0100, ReadRegister 0x0101, ReadRegister 0x0102,
         ReadRegister 0x0103, ReadLong 0x0104 2])"
    by (simp add: http_get_def r get_status_def read_register_def call_instrument_def bind_io_def
        return_io_def register_bank_def status_registers_def respond_def)
qed

theorem get_status_reads_and_fields_witness:
  "register_bank status_registers [] (ReadRegister 0x0100) = Inr (PyInt 3)
   \<and> register_bank status_registers [ReadRegister 0x0100] (ReadRegister 0x0101) = Inr (PyInt 1)
   \<and> register_bank status_registers [ReadRegister 0x0100, ReadRegister 0x0101]
        (ReadRegister 0x0102) = Inr (PyInt 0)
   \<and> register_bank status_registers [ReadRegister 0x0100, ReadRegister 0x0101, ReadRegister 0x0102]
        (ReadRegister 0x0103) = Inr (PyInt 1)
   \<and> register_bank status_registers [ReadRegister 0x0100, ReadRegister 0x0101, ReadRegister 0x0102,
        ReadRegister 0x0103] (ReadLong 0x0104 2) = Inr (PyInt 123456)
   \<and> get_status (register_bank status_registers) [] =
        (Inr (PyDict [(''evse_state'', PyInt 3),
                      (''external_charging_release_state'', PyInt 1),
                      (''external_downgrading_state'', PyInt 0),
                      (''phase_rotation'', PyInt 1),
                      (''bootup_token'', PyInt 123456)]),
         [ReadRegister 0x0100, ReadRegister 0x0101, ReadRegister 0x0102,
          ReadRegister 0x0103, ReadLong 0x0104 2])"
proof -
  have b: "\<And>h. register_bank status_registers h (ReadRegister 0x0100) = Inr (PyInt 3)"
    "\<And>h. register_bank status_registers h (ReadRegister 0x0101) = Inr (PyInt 1)"
    "\<And>h. register_bank status_registers h (ReadRegister 0x0102) = Inr (PyInt 0)"
    "\<And>h. register_bank status_registers h (ReadRegister 0x0103) = Inr (PyInt 1)"
    "\<And>h. register_bank status_registers h (ReadLong 0x0104 2) = Inr (PyInt 123456)"
    by (simp_all add: register_bank_def status_registers_def)
  show ?thesis
    using get_status_reads_and_fields [of "register_bank status_registers" "[]"
        "PyInt 3" "PyInt 1" "PyInt 0" "PyInt 1" "PyInt 123456"] b
    by simp
qed

end
